theory Spec2Isabelle
  imports Complex_Main "HOL-Library.AList" "HOL-Library.Word"
begin

section \<open>JavaScript values\<close>

text \<open>
  The provider service (\<^verbatim>\<open>src/modules/razorpay-payment/service.ts\<close>) handles JSON-like
  values: the stored payment data, the gateway's order objects and the webhook body are
  plain objects of strings, numbers and nested objects. An object is an association list
  in insertion order, read at the first entry of a key; \<open>Num\<close> carries the numeric
  values a JSON text can denote (\<open>NaN\<close> is not among them). The inputs and outputs of the
  provider's methods are such objects too.
\<close>

datatype jsval =
    Undefined
  | Null
  | Bool bool
  | Num rat
  | Str string
  | Arr "jsval list"
  | Obj "(string \<times> jsval) list"

type_synonym jsobj = "(string \<times> jsval) list"

text \<open>Truthiness, as tested by \<^verbatim>\<open>if (v)\<close> and \<^verbatim>\<open>v || w\<close>.\<close>

fun truthy :: "jsval \<Rightarrow> bool" where
  "truthy Undefined = False"
| "truthy Null = False"
| "truthy (Bool b) = b"
| "truthy (Num n) = (n \<noteq> 0)"
| "truthy (Str s) = (s \<noteq> [])"
| "truthy (Arr xs) = True"
| "truthy (Obj kvs) = True"

text \<open>\<^verbatim>\<open>a || b\<close>: the left operand when it is truthy, the right one otherwise.\<close>

definition js_or :: "jsval \<Rightarrow> jsval \<Rightarrow> jsval" where
  "js_or a b = (if truthy a then a else b)"

text \<open>\<^verbatim>\<open>obj.k\<close> on an object: \<^verbatim>\<open>undefined\<close> when the key is absent.\<close>

definition get_prop :: "jsobj \<Rightarrow> string \<Rightarrow> jsval" where
  "get_prop obj k = (case map_of obj k of Some v \<Rightarrow> v | None \<Rightarrow> Undefined)"

text \<open>
  \<^verbatim>\<open>v?.k\<close>: \<^verbatim>\<open>undefined\<close> on \<^verbatim>\<open>undefined\<close> and \<^verbatim>\<open>null\<close>, the property otherwise. The keys
  the provider reads this way (\<^verbatim>\<open>payment\<close>, \<^verbatim>\<open>order\<close>, \<^verbatim>\<open>entity\<close>, \<^verbatim>\<open>receipt\<close>,
  \<^verbatim>\<open>order_id\<close>, \<^verbatim>\<open>amount\<close>, \<^verbatim>\<open>customer\<close>, \<^verbatim>\<open>email\<close>, \<^verbatim>\<open>id\<close>) are no properties of
  strings, numbers, booleans or arrays, so reading them there gives \<^verbatim>\<open>undefined\<close> too.
\<close>

fun opt_prop :: "jsval \<Rightarrow> string \<Rightarrow> jsval" where
  "opt_prop (Obj kvs) k = get_prop kvs k"
| "opt_prop v k = Undefined"

text \<open>
  \<^verbatim>\<open>{...data}\<close> where \<^verbatim>\<open>data\<close> is a record or \<^verbatim>\<open>undefined\<close>: spreading \<^verbatim>\<open>undefined\<close>
  copies nothing.
\<close>

definition spread :: "jsobj option \<Rightarrow> jsobj" where
  "spread data = (case data of None \<Rightarrow> [] | Some d \<Rightarrow> d)"

section \<open>Errors, gateway calls and outcomes\<close>

text \<open>
  Thrown values, with the \<^verbatim>\<open>message\<close> the handlers read. \<open>MedusaError t m\<close> is
  \<^verbatim>\<open>new MedusaError(MedusaError.Types.t, m)\<close>.
\<close>

datatype error =
    Error string
  | TypeError string
  | MedusaError string string

fun message :: "error \<Rightarrow> string" where
  "message (Error m) = m"
| "message (TypeError m) = m"
| "message (MedusaError t m) = m"

text \<open>
  A call of the gateway SDK instance \<^verbatim>\<open>this.razorpay_\<close> is recorded by the path of the
  method called and its argument; every provider method returns the calls it made, in
  order, beside its outcome (\<open>Inl\<close> when the returned promise rejects). Writing to the
  logger is not recorded.
\<close>

type_synonym gateway_call = "string \<times> jsval"

type_synonym 'a effect = "gateway_call list \<times> (error + 'a)"

text \<open>
  \<^verbatim>\<open>data.id\<close>, where the input's \<^verbatim>\<open>data\<close> is a record or \<^verbatim>\<open>undefined\<close>: reading a
  property of \<^verbatim>\<open>undefined\<close> raises a TypeError.
\<close>

definition data_id :: "jsobj option \<Rightarrow> error + jsval" where
  "data_id data =
     (case data of
        None \<Rightarrow> Inl (TypeError ''Cannot read properties of undefined'')
      | Some d \<Rightarrow> Inr (get_prop d ''id''))"

text \<open>The value of \<^verbatim>\<open>input.data\<close> itself, as stored in an output object.\<close>

definition data_value :: "jsobj option \<Rightarrow> jsval" where
  "data_value data = (case data of None \<Rightarrow> Undefined | Some d \<Rightarrow> Obj d)"

section \<open>getPaymentStatus\<close>

text \<open>
  The body of the \<^verbatim>\<open>try\<close> block: fetch the order by the stored id, map its status with
  the \<^verbatim>\<open>switch\<close>, and return the stored data with \<^verbatim>\<open>order_status\<close> set. The parameter
  \<open>orders_fetch\<close> is the gateway's answer to \<^verbatim>\<open>orders.fetch(id)\<close>: \<open>Inr\<close> the order, or
  \<open>Inl\<close> the error it throws.
\<close>

definition getPaymentStatus_try ::
  "(jsval \<Rightarrow> error + jsobj) \<Rightarrow> jsobj option \<Rightarrow> jsobj effect" where
  "getPaymentStatus_try orders_fetch data =
     (case data_id data of
        Inl e \<Rightarrow> ([], Inl e)
      | Inr i \<Rightarrow>
          (case orders_fetch i of
             Inl e \<Rightarrow> ([(''orders.fetch'', i)], Inl e)
           | Inr order \<Rightarrow>
               (let order_status = get_prop order ''status'';
                    status =
                      (if order_status = Str ''created'' then ''pending''
                       else if order_status = Str ''attempted'' then ''pending''
                       else if order_status = Str ''paid'' then ''authorized''
                       else ''pending'')
                in ([(''orders.fetch'', i)],
                    Inr [(''status'', Str status),
                         (''data'',
                          Obj (AList.update ''order_status'' order_status (spread data)))]))))"

text \<open>The \<^verbatim>\<open>catch\<close> block logs the error and returns \<^verbatim>\<open>{ status: "pending" }\<close>.\<close>

definition getPaymentStatus ::
  "(jsval \<Rightarrow> error + jsobj) \<Rightarrow> jsobj option \<Rightarrow> jsobj effect" where
  "getPaymentStatus orders_fetch data =
     (case getPaymentStatus_try orders_fetch data of
        (calls, Inl error) \<Rightarrow> (calls, Inr [(''status'', Str ''pending'')])
      | (calls, Inr out) \<Rightarrow> (calls, Inr out))"

section \<open>authorizePayment\<close>

text \<open>
  \<open>now\<close> is the clock reading \<^verbatim>\<open>new Date().toISOString()\<close> at the call. The \<^verbatim>\<open>catch\<close>
  block wraps whatever was thrown in a MedusaError and throws that.
\<close>

definition authorizePayment_try ::
  "(jsval \<Rightarrow> error + jsobj) \<Rightarrow> string \<Rightarrow> jsobj option \<Rightarrow> jsobj effect" where
  "authorizePayment_try orders_fetch now data =
     (case data_id data of
        Inl e \<Rightarrow> ([], Inl e)
      | Inr i \<Rightarrow>
          (case orders_fetch i of
             Inl e \<Rightarrow> ([(''orders.fetch'', i)], Inl e)
           | Inr order \<Rightarrow>
               ([(''orders.fetch'', i)],
                Inr [(''status'', Str ''authorized''),
                     (''data'',
                      Obj (AList.update ''authorized_at'' (Str now)
                            (AList.update ''order_status'' (get_prop order ''status'')
                              (spread data))))])))"

definition authorizePayment ::
  "(jsval \<Rightarrow> error + jsobj) \<Rightarrow> string \<Rightarrow> jsobj option \<Rightarrow> jsobj effect" where
  "authorizePayment orders_fetch now data =
     (case authorizePayment_try orders_fetch now data of
        (calls, Inl error) \<Rightarrow>
          (calls, Inl (MedusaError ''PAYMENT_AUTHORIZATION_ERROR''
                         (''Failed to authorize payment: '' @ message error)))
      | (calls, Inr out) \<Rightarrow> (calls, Inr out))"

section \<open>getWebhookActionAndData\<close>

text \<open>
  What the method uses and the repository does not define: Node's
  \<^verbatim>\<open>crypto.createHmac(algorithm, key).update(body).digest(encoding)\<close>, the decoding
  \<^verbatim>\<open>toString()\<close> of a Buffer, and the framework's \<^verbatim>\<open>new BigNumber(v)\<close>, which gives the
  constructed object or throws.
\<close>

record runtime =
  createHmac :: "string \<Rightarrow> string \<Rightarrow> string \<Rightarrow> string \<Rightarrow> string"
  Buffer_toString :: "8 word list \<Rightarrow> string"
  BigNumber :: "jsval \<Rightarrow> error + jsval"

record Options =
  key_id :: string
  key_secret :: string
  webhook_secret :: "string option"

datatype rawdata = RawString string | RawBuffer "8 word list"

text \<open>
  \<^verbatim>\<open>typeof rawData === "string" ? rawData : rawData.toString()\<close>: the request body as
  a string.
\<close>

definition raw_body :: "runtime \<Rightarrow> rawdata \<Rightarrow> string" where
  "raw_body rt rawData =
     (case rawData of RawString s \<Rightarrow> s | RawBuffer b \<Rightarrow> Buffer_toString rt b)"

text \<open>
  The signature check at the head of the \<^verbatim>\<open>try\<close> block. It runs only when
  \<^verbatim>\<open>webhook_secret\<close> is truthy, that is present and not the empty string; \<^verbatim>\<open>!==\<close>
  against the generated hex string holds for every header value other than that string.
\<close>

definition verify_signature ::
  "runtime \<Rightarrow> Options \<Rightarrow> rawdata \<Rightarrow> jsobj \<Rightarrow> error + unit" where
  "verify_signature rt options rawData headers =
     (case webhook_secret options of
        None \<Rightarrow> Inr ()
      | Some secret \<Rightarrow>
          if secret = [] then Inr ()
          else
            (let expectedSignature = get_prop headers ''x-razorpay-signature'';
                 body = raw_body rt rawData;
                 generatedSignature = createHmac rt ''sha256'' secret body ''hex''
             in if expectedSignature \<noteq> Str generatedSignature
                then Inl (Error ''Invalid webhook signature'')
                else Inr ()))"

text \<open>
  \<^verbatim>\<open>data.payload?.payment?.entity\<close> and \<^verbatim>\<open>data.payload?.order?.entity\<close>.
\<close>

definition paymentEntity :: "jsobj \<Rightarrow> jsval" where
  "paymentEntity data = opt_prop (opt_prop (get_prop data ''payload'') ''payment'') ''entity''"

definition orderEntity :: "jsobj \<Rightarrow> jsval" where
  "orderEntity data = opt_prop (opt_prop (get_prop data ''payload'') ''order'') ''entity''"

text \<open>
  The object literal \<^verbatim>\<open>{ action, data: { session_id, amount: new BigNumber(v) } }\<close> that
  every branch returns; it is not built when the constructor throws.
\<close>

definition webhook_result ::
  "runtime \<Rightarrow> string \<Rightarrow> jsval \<Rightarrow> jsval \<Rightarrow> error + jsobj" where
  "webhook_result rt action session_id v =
     (case BigNumber rt v of
        Inl e \<Rightarrow> Inl e
      | Inr amount \<Rightarrow>
          Inr [(''action'', Str action),
               (''data'', Obj [(''session_id'', session_id), (''amount'', amount)])])"

definition getWebhookActionAndData_try ::
  "runtime \<Rightarrow> Options \<Rightarrow> jsobj \<Rightarrow> rawdata \<Rightarrow> jsobj \<Rightarrow> error + jsobj" where
  "getWebhookActionAndData_try rt options data rawData headers =
     (case verify_signature rt options rawData headers of
        Inl e \<Rightarrow> Inl e
      | Inr u \<Rightarrow>
          (let event = get_prop data ''event''
           in if event = Str ''payment.authorized'' then
                webhook_result rt ''authorized''
                  (js_or (opt_prop (orderEntity data) ''receipt'')
                         (opt_prop (paymentEntity data) ''order_id''))
                  (js_or (opt_prop (paymentEntity data) ''amount'') (Num 0))
              else if event = Str ''payment.captured'' then
                webhook_result rt ''captured''
                  (js_or (opt_prop (orderEntity data) ''receipt'')
                         (opt_prop (paymentEntity data) ''order_id''))
                  (js_or (opt_prop (paymentEntity data) ''amount'') (Num 0))
              else if event = Str ''payment.failed'' then
                webhook_result rt ''failed''
                  (js_or (opt_prop (orderEntity data) ''receipt'')
                         (opt_prop (paymentEntity data) ''order_id''))
                  (js_or (opt_prop (paymentEntity data) ''amount'') (Num 0))
              else
                webhook_result rt ''not_supported'' (Str []) (Num 0)))"

text \<open>
  The \<^verbatim>\<open>catch\<close> block logs the error and returns the \<^verbatim>\<open>failed\<close> result with an empty
  session id and \<^verbatim>\<open>new BigNumber(0)\<close>. The method calls no gateway.
\<close>

definition getWebhookActionAndData ::
  "runtime \<Rightarrow> Options \<Rightarrow> jsobj \<Rightarrow> rawdata \<Rightarrow> jsobj \<Rightarrow> jsobj effect" where
  "getWebhookActionAndData rt options data rawData headers =
     (case getWebhookActionAndData_try rt options data rawData headers of
        Inl error \<Rightarrow> ([], webhook_result rt ''failed'' (Str []) (Num 0))
      | Inr out \<Rightarrow> ([], Inr out))"

section \<open>Methods that only rewrite the stored data\<close>

text \<open>\<^verbatim>\<open>deletePayment\<close> returns \<^verbatim>\<open>{ data: input.data }\<close>.\<close>

definition deletePayment :: "jsobj option \<Rightarrow> jsobj effect" where
  "deletePayment data = ([], Inr [(''data'', data_value data)])"

definition cancelPayment :: "string \<Rightarrow> jsobj option \<Rightarrow> jsobj effect" where
  "cancelPayment now data =
     ([], Inr [(''data'', Obj (AList.update ''cancelled_at'' (Str now) (spread data)))])"

text \<open>
  \<^verbatim>\<open>refundPayment\<close>: nothing in its \<^verbatim>\<open>try\<close> block throws, so its \<^verbatim>\<open>catch\<close> block is
  never entered. \<open>amount\<close> is the requested amount as given in the input.
\<close>

definition refundPayment :: "string \<Rightarrow> jsval \<Rightarrow> jsobj option \<Rightarrow> jsobj effect" where
  "refundPayment now amount data =
     ([], Inr [(''data'',
                Obj (AList.update ''refunded_at'' (Str now)
                      (AList.update ''refunded_amount'' amount (spread data))))])"

text \<open>\<^verbatim>\<open>updatePayment\<close> ignores the new amount and currency.\<close>

definition updatePayment :: "string \<Rightarrow> jsobj option \<Rightarrow> jsobj effect" where
  "updatePayment now data =
     ([], Inr [(''data'', Obj (AList.update ''updated_at'' (Str now) (spread data)))])"

text \<open>
  \<^verbatim>\<open>capturePayment\<close> reads \<^verbatim>\<open>data.id\<close> for its log line, inside the \<^verbatim>\<open>try\<close> block.
\<close>

definition capturePayment_try :: "string \<Rightarrow> jsobj option \<Rightarrow> jsobj effect" where
  "capturePayment_try now data =
     (case data_id data of
        Inl e \<Rightarrow> ([], Inl e)
      | Inr i \<Rightarrow>
          ([], Inr [(''data'',
                     Obj (AList.update ''status'' (Str ''captured'')
                           (AList.update ''captured_at'' (Str now) (spread data))))]))"

definition capturePayment :: "string \<Rightarrow> jsobj option \<Rightarrow> jsobj effect" where
  "capturePayment now data =
     (case capturePayment_try now data of
        (calls, Inl error) \<Rightarrow>
          (calls, Inl (MedusaError ''PAYMENT_AUTHORIZATION_ERROR''
                         (''Failed to capture payment: '' @ message error)))
      | (calls, Inr out) \<Rightarrow> (calls, Inr out))"

section \<open>Methods that call the gateway for the order\<close>

definition retrievePayment_try ::
  "(jsval \<Rightarrow> error + jsobj) \<Rightarrow> jsobj option \<Rightarrow> jsobj effect" where
  "retrievePayment_try orders_fetch data =
     (case data_id data of
        Inl e \<Rightarrow> ([], Inl e)
      | Inr i \<Rightarrow>
          (case orders_fetch i of
             Inl e \<Rightarrow> ([(''orders.fetch'', i)], Inl e)
           | Inr order \<Rightarrow>
               ([(''orders.fetch'', i)],
                Inr [(''id'', get_prop order ''id''),
                     (''amount'', get_prop order ''amount''),
                     (''currency'', get_prop order ''currency''),
                     (''status'', get_prop order ''status''),
                     (''created_at'', get_prop order ''created_at'')])))"

definition retrievePayment ::
  "(jsval \<Rightarrow> error + jsobj) \<Rightarrow> jsobj option \<Rightarrow> jsobj effect" where
  "retrievePayment orders_fetch data =
     (case retrievePayment_try orders_fetch data of
        (calls, Inl error) \<Rightarrow>
          (calls, Inl (MedusaError ''PAYMENT_AUTHORIZATION_ERROR''
                         (''Failed to retrieve payment: '' @ message error)))
      | (calls, Inr out) \<Rightarrow> (calls, Inr out))"

text \<open>
  \<^verbatim>\<open>context.customer\<close>, where the input's \<^verbatim>\<open>context\<close> may be \<^verbatim>\<open>undefined\<close>.
\<close>

definition context_customer :: "jsval \<Rightarrow> error + jsval" where
  "context_customer context =
     (if context = Undefined \<or> context = Null
      then Inl (TypeError ''Cannot read properties of undefined'')
      else Inr (opt_prop context ''customer''))"

text \<open>
  \<^verbatim>\<open>initiatePayment\<close> creates the gateway order. Three runtime values are parameters:
  \<open>smallest_unit\<close> is \<^verbatim>\<open>Math.round(parseFloat(amount.toString()) * 100)\<close>, computed in
  the runtime's floating point (\<open>Inl\<close> when \<^verbatim>\<open>amount\<close> has no \<^verbatim>\<open>toString\<close>);
  \<open>toUpperCase\<close> is the string method; \<open>now_ms\<close> is \<^verbatim>\<open>Date.now()\<close> in decimal digits.
  \<open>orders_create\<close> is the gateway's answer to \<^verbatim>\<open>orders.create(options)\<close>.
\<close>

definition initiatePayment_try ::
  "(jsobj \<Rightarrow> error + jsobj) \<Rightarrow> (jsval \<Rightarrow> error + jsval) \<Rightarrow> (string \<Rightarrow> string) \<Rightarrow> string \<Rightarrow>
   Options \<Rightarrow> jsval \<Rightarrow> string \<Rightarrow> jsval \<Rightarrow> jsobj effect" where
  "initiatePayment_try orders_create smallest_unit toUpperCase now_ms
       options amount currency_code context =
     (case smallest_unit amount of
        Inl e \<Rightarrow> ([], Inl e)
      | Inr amountInSmallestUnit \<Rightarrow>
          (case context_customer context of
             Inl e \<Rightarrow> ([], Inl e)
           | Inr customer \<Rightarrow>
               (let order_options =
                      [(''amount'', amountInSmallestUnit),
                       (''currency'', Str (toUpperCase currency_code)),
                       (''receipt'', Str (''order_'' @ now_ms)),
                       (''notes'',
                        Obj [(''medusa_payment_session'', Bool True),
                             (''customer_email'', js_or (opt_prop customer ''email'') (Str [])),
                             (''customer_id'', js_or (opt_prop customer ''id'') (Str []))])]
                in case orders_create order_options of
                     Inl e \<Rightarrow> ([(''orders.create'', Obj order_options)], Inl e)
                   | Inr order \<Rightarrow>
                       ([(''orders.create'', Obj order_options)],
                        Inr [(''data'',
                              Obj [(''id'', get_prop order ''id''),
                                   (''amount'', get_prop order ''amount''),
                                   (''currency'', get_prop order ''currency''),
                                   (''receipt'', get_prop order ''receipt''),
                                   (''status'', get_prop order ''status''),
                                   (''created_at'', get_prop order ''created_at''),
                                   (''key_id'', Str (key_id options))])]))))"

definition initiatePayment ::
  "(jsobj \<Rightarrow> error + jsobj) \<Rightarrow> (jsval \<Rightarrow> error + jsval) \<Rightarrow> (string \<Rightarrow> string) \<Rightarrow> string \<Rightarrow>
   Options \<Rightarrow> jsval \<Rightarrow> string \<Rightarrow> jsval \<Rightarrow> jsobj effect" where
  "initiatePayment orders_create smallest_unit toUpperCase now_ms
       options amount currency_code context =
     (case initiatePayment_try orders_create smallest_unit toUpperCase now_ms
             options amount currency_code context of
        (calls, Inl error) \<Rightarrow>
          (calls, Inl (MedusaError ''PAYMENT_AUTHORIZATION_ERROR''
                         (''Failed to initiate payment with Razorpay: '' @ message error)))
      | (calls, Inr out) \<Rightarrow> (calls, Inr out))"

section \<open>Status mapping\<close>

lemma getPaymentStatus_fetched:
  "orders_fetch (get_prop d ''id'') = Inr order \<Longrightarrow>
   getPaymentStatus orders_fetch (Some d) =
     ([(''orders.fetch'', get_prop d ''id'')],
      Inr [(''status'',
            Str (if get_prop order ''status'' = Str ''paid'' then ''authorized''
                 else ''pending'')),
           (''data'', Obj (AList.update ''order_status'' (get_prop order ''status'') d))])"
  by (simp add: getPaymentStatus_def getPaymentStatus_try_def data_id_def spread_def Let_def)

text \<open>
  C4. When the order fetch succeeds, \<^verbatim>\<open>getPaymentStatus\<close> returns the status of the
  mapping table: a fetched order with status \<^verbatim>\<open>created\<close> or \<^verbatim>\<open>attempted\<close> gives
  \<^verbatim>\<open>pending\<close>, one with status \<^verbatim>\<open>paid\<close> gives \<^verbatim>\<open>authorized\<close>. The stored data comes
  back with \<^verbatim>\<open>order_status\<close> set to the fetched status, after one \<^verbatim>\<open>orders.fetch\<close> call.
\<close>

theorem getPaymentStatus_table:
  assumes "orders_fetch (get_prop d ''id'') = Inr order"
  shows "(get_prop order ''status'' = Str ''created'' \<longrightarrow>
            getPaymentStatus orders_fetch (Some d) =
              ([(''orders.fetch'', get_prop d ''id'')],
               Inr [(''status'', Str ''pending''),
                    (''data'', Obj (AList.update ''order_status'' (Str ''created'') d))]))
       \<and> (get_prop order ''status'' = Str ''attempted'' \<longrightarrow>
            getPaymentStatus orders_fetch (Some d) =
              ([(''orders.fetch'', get_prop d ''id'')],
               Inr [(''status'', Str ''pending''),
                    (''data'', Obj (AList.update ''order_status'' (Str ''attempted'') d))]))
       \<and> (get_prop order ''status'' = Str ''paid'' \<longrightarrow>
            getPaymentStatus orders_fetch (Some d) =
              ([(''orders.fetch'', get_prop d ''id'')],
               Inr [(''status'', Str ''authorized''),
                    (''data'', Obj (AList.update ''order_status'' (Str ''paid'') d))]))"
  using getPaymentStatus_fetched [of orders_fetch d order] assms by simp

theorem getPaymentStatus_table_witness:
  "getPaymentStatus (\<lambda>i. Inr [(''id'', i), (''status'', Str ''created'')])
       (Some [(''id'', Str ''order_1'')]) =
     ([(''orders.fetch'', Str ''order_1'')],
      Inr [(''status'', Str ''pending''),
           (''data'', Obj [(''id'', Str ''order_1''), (''order_status'', Str ''created'')])])
   \<and> getPaymentStatus (\<lambda>i. Inr [(''id'', i), (''status'', Str ''attempted'')])
       (Some [(''id'', Str ''order_1'')]) =
     ([(''orders.fetch'', Str ''order_1'')],
      Inr [(''status'', Str ''pending''),
           (''data'', Obj [(''id'', Str ''order_1''), (''order_status'', Str ''attempted'')])])
   \<and> getPaymentStatus (\<lambda>i. Inr [(''id'', i), (''status'', Str ''paid'')])
       (Some [(''id'', Str ''order_1'')]) =
     ([(''orders.fetch'', Str ''order_1'')],
      Inr [(''status'', Str ''authorized''),
           (''data'', Obj [(''id'', Str ''order_1''), (''order_status'', Str ''paid'')])])"
  using
    getPaymentStatus_table [of "\<lambda>i. Inr [(''id'', i), (''status'', Str ''created'')]"
      "[(''id'', Str ''order_1'')]" "[(''id'', Str ''order_1''), (''status'', Str ''created'')]"]
    getPaymentStatus_table [of "\<lambda>i. Inr [(''id'', i), (''status'', Str ''attempted'')]"
      "[(''id'', Str ''order_1'')]" "[(''id'', Str ''order_1''), (''status'', Str ''attempted'')]"]
    getPaymentStatus_table [of "\<lambda>i. Inr [(''id'', i), (''status'', Str ''paid'')]"
      "[(''id'', Str ''order_1'')]" "[(''id'', Str ''order_1''), (''status'', Str ''paid'')]"]
  by (simp add: get_prop_def)

text \<open>
  When \<^verbatim>\<open>data\<close> is \<^verbatim>\<open>undefined\<close>, reading \<^verbatim>\<open>data.id\<close> throws before any fetch; the
  \<^verbatim>\<open>catch\<close> block answers as for a failed fetch.
\<close>

lemma getPaymentStatus_no_data:
  "getPaymentStatus orders_fetch None = ([], Inr [(''status'', Str ''pending'')])"
  by (simp add: getPaymentStatus_def getPaymentStatus_try_def data_id_def)

text \<open>
  C5. When the order fetch throws, \<^verbatim>\<open>getPaymentStatus\<close> does not reject: after the one
  \<^verbatim>\<open>orders.fetch\<close> call it returns \<^verbatim>\<open>{ status: "pending" }\<close>.
\<close>

theorem getPaymentStatus_fetch_error:
  assumes "orders_fetch (get_prop d ''id'') = Inl e"
  shows "getPaymentStatus orders_fetch (Some d) =
           ([(''orders.fetch'', get_prop d ''id'')], Inr [(''status'', Str ''pending'')])"
  using assms by (simp add: getPaymentStatus_def getPaymentStatus_try_def data_id_def)

theorem getPaymentStatus_fetch_error_witness:
  "(\<lambda>i. Inl (Error ''The id provided does not exist'')) (get_prop [(''id'', Str ''order_1'')] ''id'')
     = (Inl (Error ''The id provided does not exist'') :: error + jsobj)
   \<and> getPaymentStatus (\<lambda>i. Inl (Error ''The id provided does not exist''))
         (Some [(''id'', Str ''order_1'')]) =
       ([(''orders.fetch'', Str ''order_1'')], Inr [(''status'', Str ''pending'')])"
  using getPaymentStatus_fetch_error
          [of "\<lambda>i. Inl (Error ''The id provided does not exist'')"
              "[(''id'', Str ''order_1'')]" "Error ''The id provided does not exist''"]
  by (simp add: get_prop_def)

section \<open>authorizePayment\<close>

text \<open>
  C9. When the order fetch succeeds, \<^verbatim>\<open>authorizePayment\<close> returns status
  \<^verbatim>\<open>authorized\<close> whatever the status of the fetched order, which it only copies into
  \<^verbatim>\<open>order_status\<close> of the returned data, beside \<^verbatim>\<open>authorized_at\<close>.
\<close>

theorem authorizePayment_fetched:
  assumes "orders_fetch (get_prop d ''id'') = Inr order"
  shows "authorizePayment orders_fetch now (Some d) =
           ([(''orders.fetch'', get_prop d ''id'')],
            Inr [(''status'', Str ''authorized''),
                 (''data'',
                  Obj (AList.update ''authorized_at'' (Str now)
                        (AList.update ''order_status'' (get_prop order ''status'') d)))])"
  using assms
  by (simp add: authorizePayment_def authorizePayment_try_def data_id_def spread_def)

theorem authorizePayment_fetched_witness:
  "authorizePayment (\<lambda>i. Inr [(''id'', i), (''status'', Str ''created'')])
       ''2026-01-01T00:00:00.000Z'' (Some [(''id'', Str ''order_1'')]) =
     ([(''orders.fetch'', Str ''order_1'')],
      Inr [(''status'', Str ''authorized''),
           (''data'', Obj [(''id'', Str ''order_1''), (''order_status'', Str ''created''),
                          (''authorized_at'', Str ''2026-01-01T00:00:00.000Z'')])])
   \<and> authorizePayment (\<lambda>i. Inr [(''id'', i), (''status'', Str ''attempted'')])
       ''2026-01-01T00:00:00.000Z'' (Some [(''id'', Str ''order_1'')]) =
     ([(''orders.fetch'', Str ''order_1'')],
      Inr [(''status'', Str ''authorized''),
           (''data'', Obj [(''id'', Str ''order_1''), (''order_status'', Str ''attempted''),
                          (''authorized_at'', Str ''2026-01-01T00:00:00.000Z'')])])"
  using
    authorizePayment_fetched [of "\<lambda>i. Inr [(''id'', i), (''status'', Str ''created'')]"
      "[(''id'', Str ''order_1'')]" "[(''id'', Str ''order_1''), (''status'', Str ''created'')]"
      "''2026-01-01T00:00:00.000Z''"]
    authorizePayment_fetched [of "\<lambda>i. Inr [(''id'', i), (''status'', Str ''attempted'')]"
      "[(''id'', Str ''order_1'')]" "[(''id'', Str ''order_1''), (''status'', Str ''attempted'')]"
      "''2026-01-01T00:00:00.000Z''"]
  by (simp add: get_prop_def)

section \<open>Webhook signature\<close>

lemma verify_signature_configured:
  "webhook_secret options = Some secret \<Longrightarrow> secret \<noteq> [] \<Longrightarrow>
   verify_signature rt options rawData headers =
     (if get_prop headers ''x-razorpay-signature'' =
           Str (createHmac rt ''sha256'' secret (raw_body rt rawData) ''hex'')
      then Inr () else Inl (Error ''Invalid webhook signature''))"
  by (simp add: verify_signature_def Let_def)

lemma verify_signature_not_configured:
  "webhook_secret options = None \<or> webhook_secret options = Some [] \<Longrightarrow>
   verify_signature rt options rawData headers = Inr ()"
  by (auto simp add: verify_signature_def)

lemma getWebhookActionAndData_rejected:
  "verify_signature rt options rawData headers = Inl e \<Longrightarrow>
   getWebhookActionAndData rt options data rawData headers =
     ([], webhook_result rt ''failed'' (Str []) (Num 0))"
  by (simp add: getWebhookActionAndData_def getWebhookActionAndData_try_def)

lemma webhook_result_constructed:
  "BigNumber rt v = Inr amount \<Longrightarrow>
   webhook_result rt action session_id v =
     Inr [(''action'', Str action),
          (''data'', Obj [(''session_id'', session_id), (''amount'', amount)])]"
  by (simp add: webhook_result_def)

text \<open>
  C1. With a webhook secret configured (present and not empty, which is what the code
  tests), the signature the method generates is
  \<^verbatim>\<open>createHmac("sha256", secret).update(body).digest("hex")\<close>, where \<^verbatim>\<open>body\<close> is the
  request body: \<^verbatim>\<open>rawData\<close> itself when it is a string (\<open>s\<close> below), the string
  \<^verbatim>\<open>rawData.toString()\<close> when it is a Buffer (\<open>b\<close> below). The check passes exactly when
  the \<^verbatim>\<open>x-razorpay-signature\<close> header is that string; whenever the header differs from
  it (a missing header included), the method returns action \<^verbatim>\<open>failed\<close> with an empty
  session id and the amount \<^verbatim>\<open>new BigNumber(0)\<close>, here \<open>zero\<close>.
\<close>

theorem webhook_signature_mismatch:
  assumes "webhook_secret options = Some secret" and "secret \<noteq> []"
    and "BigNumber rt (Num 0) = Inr zero"
  shows "(verify_signature rt options (RawString s) headers = Inr ()) =
           (get_prop headers ''x-razorpay-signature'' =
              Str (createHmac rt ''sha256'' secret s ''hex''))
       \<and> (get_prop headers ''x-razorpay-signature'' \<noteq>
              Str (createHmac rt ''sha256'' secret s ''hex'') \<longrightarrow>
            getWebhookActionAndData rt options data (RawString s) headers =
              ([], Inr [(''action'', Str ''failed''),
                        (''data'', Obj [(''session_id'', Str []), (''amount'', zero)])]))
       \<and> (verify_signature rt options (RawBuffer b) headers = Inr ()) =
           (get_prop headers ''x-razorpay-signature'' =
              Str (createHmac rt ''sha256'' secret (Buffer_toString rt b) ''hex''))
       \<and> (get_prop headers ''x-razorpay-signature'' \<noteq>
              Str (createHmac rt ''sha256'' secret (Buffer_toString rt b) ''hex'') \<longrightarrow>
            getWebhookActionAndData rt options data (RawBuffer b) headers =
              ([], Inr [(''action'', Str ''failed''),
                        (''data'', Obj [(''session_id'', Str []), (''amount'', zero)])]))"
proof -
  have rejected:
    "getWebhookActionAndData rt options data rawData headers =
       ([], Inr [(''action'', Str ''failed''),
                 (''data'', Obj [(''session_id'', Str []), (''amount'', zero)])])"
    if "verify_signature rt options rawData headers \<noteq> Inr ()" for rawData
  proof -
    from that obtain e where "verify_signature rt options rawData headers = Inl e"
      by (cases "verify_signature rt options rawData headers") auto
    then show ?thesis
      by (simp add: getWebhookActionAndData_rejected webhook_result_constructed [OF assms(3)])
  qed
  have string_body:
    "(verify_signature rt options (RawString s) headers = Inr ()) =
       (get_prop headers ''x-razorpay-signature'' =
          Str (createHmac rt ''sha256'' secret s ''hex''))"
    by (simp add: verify_signature_configured [OF assms(1) assms(2)] raw_body_def)
  have buffer_body:
    "(verify_signature rt options (RawBuffer b) headers = Inr ()) =
       (get_prop headers ''x-razorpay-signature'' =
          Str (createHmac rt ''sha256'' secret (Buffer_toString rt b) ''hex''))"
    by (simp add: verify_signature_configured [OF assms(1) assms(2)] raw_body_def)
  show ?thesis
    using string_body buffer_body rejected [of "RawString s"] rejected [of "RawBuffer b"]
    by blast
qed

text \<open>
  At a concrete input, with a digest that depends on algorithm, key, body and encoding
  and a Buffer decoded byte by byte: a header that signs another body (here the empty
  one) is rejected for a string body and for a Buffer body, a missing header is
  rejected, and the header signing the Buffer's text passes the check.
\<close>

theorem webhook_signature_mismatch_witness:
  "getWebhookActionAndData
      \<lparr>createHmac = (\<lambda>algorithm key body encoding. algorithm @ key @ body @ encoding),
       Buffer_toString = (\<lambda>b. map (\<lambda>w. char_of (unat w)) b),
       BigNumber = (\<lambda>v. Inr (Obj [(''value'', v)]))\<rparr>
      \<lparr>key_id = ''rzp_test'', key_secret = ''s'', webhook_secret = Some ''whsec''\<rparr>
      [(''event'', Str ''payment.captured''),
       (''payload'', Obj [(''payment'', Obj [(''entity'',
          Obj [(''order_id'', Str ''order_1''), (''amount'', Num 50000)])])])]
      (RawString ''{}'')
      [(''x-razorpay-signature'', Str ''sha256whsechex'')] =
     ([], Inr [(''action'', Str ''failed''),
               (''data'', Obj [(''session_id'', Str []),
                              (''amount'', Obj [(''value'', Num 0)])])])
   \<and> getWebhookActionAndData
      \<lparr>createHmac = (\<lambda>algorithm key body encoding. algorithm @ key @ body @ encoding),
       Buffer_toString = (\<lambda>b. map (\<lambda>w. char_of (unat w)) b),
       BigNumber = (\<lambda>v. Inr (Obj [(''value'', v)]))\<rparr>
      \<lparr>key_id = ''rzp_test'', key_secret = ''s'', webhook_secret = Some ''whsec''\<rparr>
      [(''event'', Str ''payment.captured''),
       (''payload'', Obj [(''payment'', Obj [(''entity'',
          Obj [(''order_id'', Str ''order_1''), (''amount'', Num 50000)])])])]
      (RawBuffer [123, 125])
      [(''x-razorpay-signature'', Str ''sha256whsechex'')] =
     ([], Inr [(''action'', Str ''failed''),
               (''data'', Obj [(''session_id'', Str []),
                              (''amount'', Obj [(''value'', Num 0)])])])
   \<and> getWebhookActionAndData
      \<lparr>createHmac = (\<lambda>algorithm key body encoding. algorithm @ key @ body @ encoding),
       Buffer_toString = (\<lambda>b. map (\<lambda>w. char_of (unat w)) b),
       BigNumber = (\<lambda>v. Inr (Obj [(''value'', v)]))\<rparr>
      \<lparr>key_id = ''rzp_test'', key_secret = ''s'', webhook_secret = Some ''whsec''\<rparr>
      [(''event'', Str ''payment.captured''),
       (''payload'', Obj [(''payment'', Obj [(''entity'',
          Obj [(''order_id'', Str ''order_1''), (''amount'', Num 50000)])])])]
      (RawBuffer [123, 125])
      [] =
     ([], Inr [(''action'', Str ''failed''),
               (''data'', Obj [(''session_id'', Str []),
                              (''amount'', Obj [(''value'', Num 0)])])])
   \<and> verify_signature
      \<lparr>createHmac = (\<lambda>algorithm key body encoding. algorithm @ key @ body @ encoding),
       Buffer_toString = (\<lambda>b. map (\<lambda>w. char_of (unat w)) b),
       BigNumber = (\<lambda>v. Inr (Obj [(''value'', v)]))\<rparr>
      \<lparr>key_id = ''rzp_test'', key_secret = ''s'', webhook_secret = Some ''whsec''\<rparr>
      (RawString ''{}'')
      [(''x-razorpay-signature'', Str ''sha256whsec{}hex'')] = Inr ()
   \<and> verify_signature
      \<lparr>createHmac = (\<lambda>algorithm key body encoding. algorithm @ key @ body @ encoding),
       Buffer_toString = (\<lambda>b. map (\<lambda>w. char_of (unat w)) b),
       BigNumber = (\<lambda>v. Inr (Obj [(''value'', v)]))\<rparr>
      \<lparr>key_id = ''rzp_test'', key_secret = ''s'', webhook_secret = Some ''whsec''\<rparr>
      (RawBuffer [123, 125])
      [(''x-razorpay-signature'', Str ''sha256whsec{}hex'')] = Inr ()"
proof -
  have open_brace: "char_of (123::nat) = CHR ''{''"
    by (simp add: char_of_def bit_iff_odd_drop_bit)
  have close_brace: "char_of (125::nat) = CHR ''}''"
    by (simp add: char_of_def bit_iff_odd_drop_bit)
  show ?thesis
    using
    webhook_signature_mismatch
      [of "\<lparr>key_id = ''rzp_test'', key_secret = ''s'', webhook_secret = Some ''whsec''\<rparr>"
          "''whsec''"
          "\<lparr>createHmac = (\<lambda>algorithm key body encoding. algorithm @ key @ body @ encoding),
       Buffer_toString = (\<lambda>b. map (\<lambda>w. char_of (unat w)) b),
       BigNumber = (\<lambda>v. Inr (Obj [(''value'', v)]))\<rparr>"
          "Obj [(''value'', Num 0)]"
          "''{}''" "[(''x-razorpay-signature'', Str ''sha256whsechex'')]"
          "[(''event'', Str ''payment.captured''),
       (''payload'', Obj [(''payment'', Obj [(''entity'',
          Obj [(''order_id'', Str ''order_1''), (''amount'', Num 50000)])])])]"
          "[123, 125]"]
    webhook_signature_mismatch
      [of "\<lparr>key_id = ''rzp_test'', key_secret = ''s'', webhook_secret = Some ''whsec''\<rparr>"
          "''whsec''"
          "\<lparr>createHmac = (\<lambda>algorithm key body encoding. algorithm @ key @ body @ encoding),
       Buffer_toString = (\<lambda>b. map (\<lambda>w. char_of (unat w)) b),
       BigNumber = (\<lambda>v. Inr (Obj [(''value'', v)]))\<rparr>"
          "Obj [(''value'', Num 0)]"
          "''{}''" "[]"
          "[(''event'', Str ''payment.captured''),
       (''payload'', Obj [(''payment'', Obj [(''entity'',
          Obj [(''order_id'', Str ''order_1''), (''amount'', Num 50000)])])])]"
          "[123, 125]"]
    webhook_signature_mismatch
      [of "\<lparr>key_id = ''rzp_test'', key_secret = ''s'', webhook_secret = Some ''whsec''\<rparr>"
          "''whsec''"
          "\<lparr>createHmac = (\<lambda>algorithm key body encoding. algorithm @ key @ body @ encoding),
       Buffer_toString = (\<lambda>b. map (\<lambda>w. char_of (unat w)) b),
       BigNumber = (\<lambda>v. Inr (Obj [(''value'', v)]))\<rparr>"
          "Obj [(''value'', Num 0)]"
          "''{}''" "[(''x-razorpay-signature'', Str ''sha256whsec{}hex'')]"
          "[(''event'', Str ''payment.captured''),
       (''payload'', Obj [(''payment'', Obj [(''entity'',
          Obj [(''order_id'', Str ''order_1''), (''amount'', Num 50000)])])])]"
          "[123, 125]"]
    by (simp add: get_prop_def open_brace close_brace)
qed

text \<open>
  C8. With no webhook secret configured (absent or empty), the check is skipped: every
  payload counts as authenticated, and the result does not depend on the headers, so two
  payloads that differ only in the \<^verbatim>\<open>x-razorpay-signature\<close> header (or lack it) get
  the same result.
\<close>

theorem webhook_no_secret_ignores_signature:
  assumes "webhook_secret options = None \<or> webhook_secret options = Some []"
  shows "verify_signature rt options rawData headers = Inr ()
       \<and> getWebhookActionAndData rt options data rawData headers =
         getWebhookActionAndData rt options data rawData headers'"
  using verify_signature_not_configured [OF assms]
  by (simp add: getWebhookActionAndData_def getWebhookActionAndData_try_def)

theorem webhook_no_secret_ignores_signature_witness:
  "getWebhookActionAndData
      \<lparr>createHmac = (\<lambda>algorithm key body encoding. key @ body),
       Buffer_toString = (\<lambda>b. []),
       BigNumber = (\<lambda>v. Inr (Obj [(''value'', v)]))\<rparr>
      \<lparr>key_id = ''rzp_test'', key_secret = ''s'', webhook_secret = None\<rparr>
      [(''event'', Str ''payment.captured''),
       (''payload'', Obj [(''payment'', Obj [(''entity'',
          Obj [(''order_id'', Str ''order_1''), (''amount'', Num 50000)])])])]
      (RawString ''{}'')
      [(''x-razorpay-signature'', Str ''forged'')] =
     ([], Inr [(''action'', Str ''captured''),
               (''data'', Obj [(''session_id'', Str ''order_1''),
                              (''amount'', Obj [(''value'', Num 50000)])])])
   \<and> getWebhookActionAndData
      \<lparr>createHmac = (\<lambda>algorithm key body encoding. key @ body),
       Buffer_toString = (\<lambda>b. []),
       BigNumber = (\<lambda>v. Inr (Obj [(''value'', v)]))\<rparr>
      \<lparr>key_id = ''rzp_test'', key_secret = ''s'', webhook_secret = None\<rparr>
      [(''event'', Str ''payment.captured''),
       (''payload'', Obj [(''payment'', Obj [(''entity'',
          Obj [(''order_id'', Str ''order_1''), (''amount'', Num 50000)])])])]
      (RawString ''{}'')
      [] =
     ([], Inr [(''action'', Str ''captured''),
               (''data'', Obj [(''session_id'', Str ''order_1''),
                              (''amount'', Obj [(''value'', Num 50000)])])])"
proof -
  let ?rt = "\<lparr>createHmac = (\<lambda>algorithm key body encoding. key @ body),
              Buffer_toString = (\<lambda>b. []),
              BigNumber = (\<lambda>v. Inr (Obj [(''value'', v)]))\<rparr>"
  let ?options = "\<lparr>key_id = ''rzp_test'', key_secret = ''s'', webhook_secret = None\<rparr>"
  let ?data = "[(''event'', Str ''payment.captured''),
                (''payload'', Obj [(''payment'', Obj [(''entity'',
                   Obj [(''order_id'', Str ''order_1''), (''amount'', Num 50000)])])])]"
  have same:
    "getWebhookActionAndData ?rt ?options ?data (RawString ''{}'')
        [(''x-razorpay-signature'', Str ''forged'')] =
     getWebhookActionAndData ?rt ?options ?data (RawString ''{}'') []"
    using webhook_no_secret_ignores_signature
      [of ?options ?rt "RawString ''{}''" "[(''x-razorpay-signature'', Str ''forged'')]"
          ?data "[]"]
    by simp
  have "getWebhookActionAndData ?rt ?options ?data (RawString ''{}'') [] =
     ([], Inr [(''action'', Str ''captured''),
               (''data'', Obj [(''session_id'', Str ''order_1''),
                              (''amount'', Obj [(''value'', Num 50000)])])])"
    by (simp add: getWebhookActionAndData_def getWebhookActionAndData_try_def
          verify_signature_def webhook_result_def paymentEntity_def orderEntity_def
          get_prop_def js_or_def)
  with same show ?thesis by simp
qed

section \<open>Webhook events\<close>

lemma getWebhookActionAndData_accepted:
  "verify_signature rt options rawData headers = Inr () \<Longrightarrow>
   getWebhookActionAndData rt options data rawData headers =
     (case
        (if get_prop data ''event'' = Str ''payment.authorized'' then
           webhook_result rt ''authorized''
             (js_or (opt_prop (orderEntity data) ''receipt'')
                    (opt_prop (paymentEntity data) ''order_id''))
             (js_or (opt_prop (paymentEntity data) ''amount'') (Num 0))
         else if get_prop data ''event'' = Str ''payment.captured'' then
           webhook_result rt ''captured''
             (js_or (opt_prop (orderEntity data) ''receipt'')
                    (opt_prop (paymentEntity data) ''order_id''))
             (js_or (opt_prop (paymentEntity data) ''amount'') (Num 0))
         else if get_prop data ''event'' = Str ''payment.failed'' then
           webhook_result rt ''failed''
             (js_or (opt_prop (orderEntity data) ''receipt'')
                    (opt_prop (paymentEntity data) ''order_id''))
             (js_or (opt_prop (paymentEntity data) ''amount'') (Num 0))
         else webhook_result rt ''not_supported'' (Str []) (Num 0))
      of Inl error \<Rightarrow> ([], webhook_result rt ''failed'' (Str []) (Num 0))
       | Inr out \<Rightarrow> ([], Inr out))"
  by (simp add: getWebhookActionAndData_def getWebhookActionAndData_try_def Let_def)

text \<open>
  C2, as the code has it. For a payload that passes the signature check and on whose
  amount value the \<^verbatim>\<open>BigNumber\<close> constructor does not throw, the events
  \<^verbatim>\<open>payment.authorized\<close>, \<^verbatim>\<open>payment.captured\<close> and \<^verbatim>\<open>payment.failed\<close> give the
  actions \<^verbatim>\<open>authorized\<close>, \<^verbatim>\<open>captured\<close> and \<^verbatim>\<open>failed\<close>. The session id is the order
  entity's \<^verbatim>\<open>receipt\<close> or, when that is falsy, the payment entity's \<^verbatim>\<open>order_id\<close>. The
  amount is \<^verbatim>\<open>new BigNumber\<close> of the payment entity's \<^verbatim>\<open>amount\<close> as it stands in the
  payload (of \<open>0\<close> when that is falsy), with no arithmetic applied; \<open>amount\<close> below is
  the object the constructor gives for it.
\<close>

theorem webhook_payment_events:
  assumes "verify_signature rt options rawData headers = Inr ()"
    and "BigNumber rt (js_or (opt_prop (paymentEntity data) ''amount'') (Num 0)) = Inr amount"
  shows "(get_prop data ''event'' = Str ''payment.authorized'' \<longrightarrow>
            getWebhookActionAndData rt options data rawData headers =
              ([], Inr [(''action'', Str ''authorized''),
                        (''data'',
                         Obj [(''session_id'',
                               js_or (opt_prop (orderEntity data) ''receipt'')
                                     (opt_prop (paymentEntity data) ''order_id'')),
                              (''amount'', amount)])]))
       \<and> (get_prop data ''event'' = Str ''payment.captured'' \<longrightarrow>
            getWebhookActionAndData rt options data rawData headers =
              ([], Inr [(''action'', Str ''captured''),
                        (''data'',
                         Obj [(''session_id'',
                               js_or (opt_prop (orderEntity data) ''receipt'')
                                     (opt_prop (paymentEntity data) ''order_id'')),
                              (''amount'', amount)])]))
       \<and> (get_prop data ''event'' = Str ''payment.failed'' \<longrightarrow>
            getWebhookActionAndData rt options data rawData headers =
              ([], Inr [(''action'', Str ''failed''),
                        (''data'',
                         Obj [(''session_id'',
                               js_or (opt_prop (orderEntity data) ''receipt'')
                                     (opt_prop (paymentEntity data) ''order_id'')),
                              (''amount'', amount)])]))"
  by (simp add: getWebhookActionAndData_accepted [OF assms(1)]
        webhook_result_constructed [OF assms(2)])

theorem webhook_payment_events_witness:
  "getWebhookActionAndData
      \<lparr>createHmac = (\<lambda>algorithm key body encoding. key @ body),
       Buffer_toString = (\<lambda>b. []),
       BigNumber = (\<lambda>v. Inr (Obj [(''value'', v)]))\<rparr>
      \<lparr>key_id = ''rzp_test'', key_secret = ''s'', webhook_secret = Some ''whsec''\<rparr>
      [(''event'', Str ''payment.authorized''),
       (''payload'', Obj [(''order'', Obj [(''entity'', Obj [(''receipt'', Str ''sess_1'')])]),
                         (''payment'', Obj [(''entity'',
          Obj [(''order_id'', Str ''order_1''), (''amount'', Num 50000)])])])]
      (RawString ''{}'')
      [(''x-razorpay-signature'', Str ''whsec{}'')] =
     ([], Inr [(''action'', Str ''authorized''),
               (''data'', Obj [(''session_id'', Str ''sess_1''),
                              (''amount'', Obj [(''value'', Num 50000)])])])
   \<and> getWebhookActionAndData
      \<lparr>createHmac = (\<lambda>algorithm key body encoding. key @ body),
       Buffer_toString = (\<lambda>b. []),
       BigNumber = (\<lambda>v. Inr (Obj [(''value'', v)]))\<rparr>
      \<lparr>key_id = ''rzp_test'', key_secret = ''s'', webhook_secret = Some ''whsec''\<rparr>
      [(''event'', Str ''payment.captured''),
       (''payload'', Obj [(''payment'', Obj [(''entity'',
          Obj [(''order_id'', Str ''order_1''), (''amount'', Num 50000)])])])]
      (RawString ''{}'')
      [(''x-razorpay-signature'', Str ''whsec{}'')] =
     ([], Inr [(''action'', Str ''captured''),
               (''data'', Obj [(''session_id'', Str ''order_1''),
                              (''amount'', Obj [(''value'', Num 50000)])])])
   \<and> getWebhookActionAndData
      \<lparr>createHmac = (\<lambda>algorithm key body encoding. key @ body),
       Buffer_toString = (\<lambda>b. []),
       BigNumber = (\<lambda>v. Inr (Obj [(''value'', v)]))\<rparr>
      \<lparr>key_id = ''rzp_test'', key_secret = ''s'', webhook_secret = Some ''whsec''\<rparr>
      [(''event'', Str ''payment.failed''),
       (''payload'', Obj [(''payment'', Obj [(''entity'',
          Obj [(''order_id'', Str ''order_1''), (''amount'', Num 50000)])])])]
      (RawString ''{}'')
      [(''x-razorpay-signature'', Str ''whsec{}'')] =
     ([], Inr [(''action'', Str ''failed''),
               (''data'', Obj [(''session_id'', Str ''order_1''),
                              (''amount'', Obj [(''value'', Num 50000)])])])"
  using
    webhook_payment_events
      [of "\<lparr>createHmac = (\<lambda>algorithm key body encoding. key @ body),
       Buffer_toString = (\<lambda>b. []),
       BigNumber = (\<lambda>v. Inr (Obj [(''value'', v)]))\<rparr>"
          "\<lparr>key_id = ''rzp_test'', key_secret = ''s'', webhook_secret = Some ''whsec''\<rparr>"
          "RawString ''{}''" "[(''x-razorpay-signature'', Str ''whsec{}'')]"
          "[(''event'', Str ''payment.authorized''),
       (''payload'', Obj [(''order'', Obj [(''entity'', Obj [(''receipt'', Str ''sess_1'')])]),
                         (''payment'', Obj [(''entity'',
          Obj [(''order_id'', Str ''order_1''), (''amount'', Num 50000)])])])]"
          "Obj [(''value'', Num 50000)]"]
    webhook_payment_events
      [of "\<lparr>createHmac = (\<lambda>algorithm key body encoding. key @ body),
       Buffer_toString = (\<lambda>b. []),
       BigNumber = (\<lambda>v. Inr (Obj [(''value'', v)]))\<rparr>"
          "\<lparr>key_id = ''rzp_test'', key_secret = ''s'', webhook_secret = Some ''whsec''\<rparr>"
          "RawString ''{}''" "[(''x-razorpay-signature'', Str ''whsec{}'')]"
          "[(''event'', Str ''payment.captured''),
       (''payload'', Obj [(''payment'', Obj [(''entity'',
          Obj [(''order_id'', Str ''order_1''), (''amount'', Num 50000)])])])]"
          "Obj [(''value'', Num 50000)]"]
    webhook_payment_events
      [of "\<lparr>createHmac = (\<lambda>algorithm key body encoding. key @ body),
       Buffer_toString = (\<lambda>b. []),
       BigNumber = (\<lambda>v. Inr (Obj [(''value'', v)]))\<rparr>"
          "\<lparr>key_id = ''rzp_test'', key_secret = ''s'', webhook_secret = Some ''whsec''\<rparr>"
          "RawString ''{}''" "[(''x-razorpay-signature'', Str ''whsec{}'')]"
          "[(''event'', Str ''payment.failed''),
       (''payload'', Obj [(''payment'', Obj [(''entity'',
          Obj [(''order_id'', Str ''order_1''), (''amount'', Num 50000)])])])]"
          "Obj [(''value'', Num 50000)]"]
  by (simp add: verify_signature_def raw_body_def get_prop_def paymentEntity_def
        orderEntity_def js_or_def)

text \<open>
  When the constructor throws on the amount, the \<^verbatim>\<open>catch\<close> block answers instead, for
  any event.
\<close>

lemma webhook_amount_rejected:
  assumes "verify_signature rt options rawData headers = Inr ()"
    and "get_prop data ''event'' \<in>
           {Str ''payment.authorized'', Str ''payment.captured'', Str ''payment.failed''}"
    and "BigNumber rt (js_or (opt_prop (paymentEntity data) ''amount'') (Num 0)) = Inl e"
  shows "getWebhookActionAndData rt options data rawData headers =
           ([], webhook_result rt ''failed'' (Str []) (Num 0))"
  using assms(2,3)
  by (auto simp add: getWebhookActionAndData_accepted [OF assms(1)] webhook_result_def)

text \<open>
  C2 as stated fails where the constructor throws. With a constructor that accepts
  numbers and strings and throws on any other value, a \<^verbatim>\<open>payment.authorized\<close> payload
  whose amount is \<^verbatim>\<open>true\<close> passes the signature check, with the secret configured and
  the header signing the body, and yet gets the \<^verbatim>\<open>catch\<close> block's answer: action
  \<^verbatim>\<open>failed\<close>, an empty session id and \<^verbatim>\<open>new BigNumber(0)\<close>, although the payment
  entity carries the order id \<^verbatim>\<open>order_1\<close>.
\<close>

theorem webhook_payment_events_counterexample:
  "verify_signature
      \<lparr>createHmac = (\<lambda>algorithm key body encoding. algorithm @ key @ body @ encoding),
       Buffer_toString = (\<lambda>b. map (\<lambda>w. char_of (unat w)) b),
       BigNumber = (\<lambda>v. case v of
                           Num n \<Rightarrow> Inr (Obj [(''value'', v)])
                         | Str s \<Rightarrow> Inr (Obj [(''value'', v)])
                         | _ \<Rightarrow> Inl (Error ''Invalid BigNumber value''))\<rparr>
      \<lparr>key_id = ''rzp_test'', key_secret = ''s'', webhook_secret = Some ''whsec''\<rparr>
      (RawString ''{}'')
      [(''x-razorpay-signature'', Str ''sha256whsec{}hex'')] = Inr ()
   \<and> getWebhookActionAndData
      \<lparr>createHmac = (\<lambda>algorithm key body encoding. algorithm @ key @ body @ encoding),
       Buffer_toString = (\<lambda>b. map (\<lambda>w. char_of (unat w)) b),
       BigNumber = (\<lambda>v. case v of
                           Num n \<Rightarrow> Inr (Obj [(''value'', v)])
                         | Str s \<Rightarrow> Inr (Obj [(''value'', v)])
                         | _ \<Rightarrow> Inl (Error ''Invalid BigNumber value''))\<rparr>
      \<lparr>key_id = ''rzp_test'', key_secret = ''s'', webhook_secret = Some ''whsec''\<rparr>
      [(''event'', Str ''payment.authorized''),
       (''payload'', Obj [(''payment'', Obj [(''entity'',
          Obj [(''order_id'', Str ''order_1''), (''amount'', Bool True)])])])]
      (RawString ''{}'')
      [(''x-razorpay-signature'', Str ''sha256whsec{}hex'')] =
     ([], Inr [(''action'', Str ''failed''),
               (''data'', Obj [(''session_id'', Str []),
                              (''amount'', Obj [(''value'', Num 0)])])])"
  by (simp add: getWebhookActionAndData_def getWebhookActionAndData_try_def
        verify_signature_def raw_body_def webhook_result_def paymentEntity_def
        orderEntity_def get_prop_def js_or_def)

text \<open>
  C3. For a payload that passes the signature check and whose event is none of
  \<^verbatim>\<open>payment.authorized\<close>, \<^verbatim>\<open>payment.captured\<close>, \<^verbatim>\<open>payment.failed\<close> (an absent event
  included), the method returns action \<^verbatim>\<open>not_supported\<close> with an empty session id and
  the amount \<^verbatim>\<open>new BigNumber(0)\<close>, here \<open>zero\<close>.
\<close>

theorem webhook_other_events:
  assumes "verify_signature rt options rawData headers = Inr ()"
    and "BigNumber rt (Num 0) = Inr zero"
    and "get_prop data ''event'' \<noteq> Str ''payment.authorized''"
    and "get_prop data ''event'' \<noteq> Str ''payment.captured''"
    and "get_prop data ''event'' \<noteq> Str ''payment.failed''"
  shows "getWebhookActionAndData rt options data rawData headers =
           ([], Inr [(''action'', Str ''not_supported''),
                     (''data'', Obj [(''session_id'', Str []), (''amount'', zero)])])"
  using assms(3,4,5)
  by (simp add: getWebhookActionAndData_accepted [OF assms(1)]
        webhook_result_constructed [OF assms(2)])

theorem webhook_other_events_witness:
  "getWebhookActionAndData
      \<lparr>createHmac = (\<lambda>algorithm key body encoding. key @ body),
       Buffer_toString = (\<lambda>b. []),
       BigNumber = (\<lambda>v. Inr (Obj [(''value'', v)]))\<rparr>
      \<lparr>key_id = ''rzp_test'', key_secret = ''s'', webhook_secret = Some ''whsec''\<rparr>
      [(''event'', Str ''order.paid''),
       (''payload'', Obj [(''order'', Obj [(''entity'', Obj [(''receipt'', Str ''sess_1'')])]),
                         (''payment'', Obj [(''entity'',
          Obj [(''order_id'', Str ''order_1''), (''amount'', Num 50000)])])])]
      (RawString ''{}'')
      [(''x-razorpay-signature'', Str ''whsec{}'')] =
     ([], Inr [(''action'', Str ''not_supported''),
               (''data'', Obj [(''session_id'', Str []),
                              (''amount'', Obj [(''value'', Num 0)])])])"
  using webhook_other_events
      [of "\<lparr>createHmac = (\<lambda>algorithm key body encoding. key @ body),
       Buffer_toString = (\<lambda>b. []),
       BigNumber = (\<lambda>v. Inr (Obj [(''value'', v)]))\<rparr>"
          "\<lparr>key_id = ''rzp_test'', key_secret = ''s'', webhook_secret = Some ''whsec''\<rparr>"
          "RawString ''{}''" "[(''x-razorpay-signature'', Str ''whsec{}'')]"
          "Obj [(''value'', Num 0)]"
          "[(''event'', Str ''order.paid''),
       (''payload'', Obj [(''order'', Obj [(''entity'', Obj [(''receipt'', Str ''sess_1'')])]),
                         (''payment'', Obj [(''entity'',
          Obj [(''order_id'', Str ''order_1''), (''amount'', Num 50000)])])])]"]
  by (simp add: verify_signature_def raw_body_def get_prop_def)

section \<open>Status vocabulary\<close>

lemma getPaymentStatus_vocabulary:
  "\<exists>out. snd (getPaymentStatus orders_fetch data) = Inr out
         \<and> get_prop out ''status'' \<in> {Str ''pending'', Str ''authorized''}"
proof (cases data)
  case None
  then show ?thesis by (simp add: getPaymentStatus_no_data get_prop_def)
next
  case (Some d)
  show ?thesis
  proof (cases "orders_fetch (get_prop d ''id'')")
    case (Inl e)
    then show ?thesis
      using Some
      by (simp add: getPaymentStatus_def getPaymentStatus_try_def data_id_def get_prop_def)
  next
    case (Inr order)
    then show ?thesis
      using Some getPaymentStatus_fetched [of orders_fetch d order]
      by (simp add: get_prop_def)
  qed
qed

lemma webhook_result_vocabulary:
  "webhook_result rt action session_id v = Inr out \<Longrightarrow> get_prop out ''action'' = Str action"
  by (auto simp add: webhook_result_def get_prop_def split: sum.splits)

lemma getWebhookActionAndData_vocabulary:
  assumes "BigNumber rt (Num 0) = Inr zero"
  shows "\<exists>out. snd (getWebhookActionAndData rt options data rawData headers) = Inr out
           \<and> get_prop out ''action'' \<in>
               {Str ''authorized'', Str ''captured'', Str ''failed'', Str ''not_supported''}"
proof (cases "getWebhookActionAndData_try rt options data rawData headers")
  case (Inl e)
  then show ?thesis
    by (simp add: getWebhookActionAndData_def webhook_result_constructed [OF assms]
          get_prop_def)
next
  case (Inr out)
  then have "get_prop out ''action'' \<in>
      {Str ''authorized'', Str ''captured'', Str ''failed'', Str ''not_supported''}"
    by (auto simp add: getWebhookActionAndData_try_def Let_def
          dest: webhook_result_vocabulary split: sum.splits if_splits)
  with Inr show ?thesis by (simp add: getWebhookActionAndData_def)
qed

text \<open>
  C7. \<^verbatim>\<open>getPaymentStatus\<close> always returns, and its status is \<^verbatim>\<open>pending\<close> or
  \<^verbatim>\<open>authorized\<close>, for any input, any answer of the gateway and any order status.
  \<^verbatim>\<open>getWebhookActionAndData\<close> always returns, and its action is one of \<^verbatim>\<open>authorized\<close>,
  \<^verbatim>\<open>captured\<close>, \<^verbatim>\<open>failed\<close>, \<^verbatim>\<open>not_supported\<close>, for any payload; its \<^verbatim>\<open>catch\<close> block
  builds \<^verbatim>\<open>new BigNumber(0)\<close>, which is taken to succeed.
\<close>

theorem status_vocabulary:
  assumes "BigNumber rt (Num 0) = Inr zero"
  shows "(\<exists>out. snd (getPaymentStatus orders_fetch stored) = Inr out
            \<and> get_prop out ''status'' \<in> {Str ''pending'', Str ''authorized''})
       \<and> (\<exists>out. snd (getWebhookActionAndData rt options data rawData headers) = Inr out
            \<and> get_prop out ''action'' \<in>
                {Str ''authorized'', Str ''captured'', Str ''failed'', Str ''not_supported''})"
  using getPaymentStatus_vocabulary [of orders_fetch stored]
    getWebhookActionAndData_vocabulary [OF assms, of options data rawData headers]
  by (rule conjI)

theorem status_vocabulary_witness:
  "(\<exists>out. snd (getPaymentStatus (\<lambda>i. Inr [(''id'', i), (''status'', Str ''expired'')])
                 (Some [(''id'', Str ''order_1'')])) = Inr out
            \<and> get_prop out ''status'' \<in> {Str ''pending'', Str ''authorized''})
   \<and> (\<exists>out. snd (getWebhookActionAndData
      \<lparr>createHmac = (\<lambda>algorithm key body encoding. key @ body),
       Buffer_toString = (\<lambda>b. []),
       BigNumber = (\<lambda>v. Inr (Obj [(''value'', v)]))\<rparr>
      \<lparr>key_id = ''rzp_test'', key_secret = ''s'', webhook_secret = Some ''whsec''\<rparr>
      [(''event'', Str ''refund.created'')] (RawBuffer [123, 125]) []) = Inr out
            \<and> get_prop out ''action'' \<in>
                {Str ''authorized'', Str ''captured'', Str ''failed'', Str ''not_supported''})"
  using status_vocabulary
    [of "\<lparr>createHmac = (\<lambda>algorithm key body encoding. key @ body),
       Buffer_toString = (\<lambda>b. []),
       BigNumber = (\<lambda>v. Inr (Obj [(''value'', v)]))\<rparr>"
        "Obj [(''value'', Num 0)]"
        "\<lambda>i. Inr [(''id'', i), (''status'', Str ''expired'')]"
        "Some [(''id'', Str ''order_1'')]"
        "\<lparr>key_id = ''rzp_test'', key_secret = ''s'', webhook_secret = Some ''whsec''\<rparr>"
        "[(''event'', Str ''refund.created'')]" "RawBuffer [123, 125]" "[]"]
  by simp

section \<open>Gateway calls of each method\<close>

lemma initiatePayment_calls:
  "fst ` set (fst (initiatePayment orders_create smallest_unit toUpperCase now_ms
                     options amount currency_code context))
     \<subseteq> {''orders.create'', ''orders.fetch''}"
  by (auto simp add: initiatePayment_def initiatePayment_try_def Let_def
        split: sum.splits)

lemma authorizePayment_calls:
  "fst ` set (fst (authorizePayment orders_fetch now data))
     \<subseteq> {''orders.create'', ''orders.fetch''}"
  by (auto simp add: authorizePayment_def authorizePayment_try_def split: sum.splits)

lemma getPaymentStatus_calls:
  "fst ` set (fst (getPaymentStatus orders_fetch data))
     \<subseteq> {''orders.create'', ''orders.fetch''}"
  by (auto simp add: getPaymentStatus_def getPaymentStatus_try_def Let_def
        split: sum.splits)

lemma retrievePayment_calls:
  "fst ` set (fst (retrievePayment orders_fetch data))
     \<subseteq> {''orders.create'', ''orders.fetch''}"
  by (auto simp add: retrievePayment_def retrievePayment_try_def split: sum.splits)

lemma capturePayment_calls: "fst (capturePayment now data) = []"
  by (simp add: capturePayment_def capturePayment_try_def split: sum.splits)

lemma updatePayment_calls: "fst (updatePayment now data) = []"
  by (simp add: updatePayment_def)

lemma deletePayment_calls: "fst (deletePayment data) = []"
  by (simp add: deletePayment_def)

lemma cancelPayment_calls: "fst (cancelPayment now data) = []"
  by (simp add: cancelPayment_def)

lemma refundPayment_calls: "fst (refundPayment now amount data) = []"
  by (simp add: refundPayment_def)

lemma getWebhookActionAndData_calls:
  "fst (getWebhookActionAndData rt options data rawData headers) = []"
  by (simp add: getWebhookActionAndData_def split: sum.splits)

section \<open>Cancel, delete and refund\<close>

text \<open>
  C6. \<^verbatim>\<open>deletePayment\<close> calls no gateway and returns the input's stored data as it is.
  \<^verbatim>\<open>cancelPayment\<close> calls no gateway and returns the stored data with \<^verbatim>\<open>cancelled_at\<close>
  set to the time of the call and every other field as it was. Across all methods of the
  provider, the only gateway operations called are \<^verbatim>\<open>orders.create\<close> and
  \<^verbatim>\<open>orders.fetch\<close>.
\<close>

theorem cancel_delete_no_gateway:
  "deletePayment data = ([], Inr [(''data'', data_value data)])
   \<and> (\<exists>d'. cancelPayment now data = ([], Inr [(''data'', Obj d')])
          \<and> map_of d' = (map_of (spread data))(''cancelled_at'' \<mapsto> Str now))
   \<and> fst ` (set (fst (initiatePayment orders_create smallest_unit toUpperCase now_ms
                         options amount currency_code context))
           \<union> set (fst (authorizePayment orders_fetch now data))
           \<union> set (fst (capturePayment now data))
           \<union> set (fst (getPaymentStatus orders_fetch data))
           \<union> set (fst (getWebhookActionAndData rt options wdata rawData headers))
           \<union> set (fst (updatePayment now data))
           \<union> set (fst (retrievePayment orders_fetch data))
           \<union> set (fst (deletePayment data))
           \<union> set (fst (cancelPayment now data))
           \<union> set (fst (refundPayment now amount data)))
       \<subseteq> {''orders.create'', ''orders.fetch''}"
proof (intro conjI)
  show "deletePayment data = ([], Inr [(''data'', data_value data)])"
    by (simp add: deletePayment_def)
  show "\<exists>d'. cancelPayment now data = ([], Inr [(''data'', Obj d')])
          \<and> map_of d' = (map_of (spread data))(''cancelled_at'' \<mapsto> Str now)"
    by (simp add: cancelPayment_def update_conv')
  show "fst ` (set (fst (initiatePayment orders_create smallest_unit toUpperCase now_ms
                         options amount currency_code context))
           \<union> set (fst (authorizePayment orders_fetch now data))
           \<union> set (fst (capturePayment now data))
           \<union> set (fst (getPaymentStatus orders_fetch data))
           \<union> set (fst (getWebhookActionAndData rt options wdata rawData headers))
           \<union> set (fst (updatePayment now data))
           \<union> set (fst (retrievePayment orders_fetch data))
           \<union> set (fst (deletePayment data))
           \<union> set (fst (cancelPayment now data))
           \<union> set (fst (refundPayment now amount data)))
       \<subseteq> {''orders.create'', ''orders.fetch''}"
    unfolding capturePayment_calls updatePayment_calls deletePayment_calls
      cancelPayment_calls refundPayment_calls getWebhookActionAndData_calls
      image_Un Un_subset_iff
  proof (intro conjI)
    show "fst ` set (fst (initiatePayment orders_create smallest_unit toUpperCase now_ms
                            options amount currency_code context))
            \<subseteq> {''orders.create'', ''orders.fetch''}"
      by (rule initiatePayment_calls)
    show "fst ` set (fst (authorizePayment orders_fetch now data))
            \<subseteq> {''orders.create'', ''orders.fetch''}"
      by (rule authorizePayment_calls)
    show "fst ` set (fst (getPaymentStatus orders_fetch data))
            \<subseteq> {''orders.create'', ''orders.fetch''}"
      by (rule getPaymentStatus_calls)
    show "fst ` set (fst (retrievePayment orders_fetch data))
            \<subseteq> {''orders.create'', ''orders.fetch''}"
      by (rule retrievePayment_calls)
  qed simp_all
qed

theorem cancel_delete_no_gateway_witness:
  "deletePayment (Some [(''id'', Str ''order_1''), (''amount'', Num 50000)]) =
     ([], Inr [(''data'', Obj [(''id'', Str ''order_1''), (''amount'', Num 50000)])])
   \<and> cancelPayment ''2026-01-01T00:00:00.000Z''
         (Some [(''id'', Str ''order_1''), (''amount'', Num 50000)]) =
     ([], Inr [(''data'', Obj [(''id'', Str ''order_1''), (''amount'', Num 50000),
                              (''cancelled_at'', Str ''2026-01-01T00:00:00.000Z'')])])"
  using cancel_delete_no_gateway
    [of "Some [(''id'', Str ''order_1''), (''amount'', Num 50000)]"
        "''2026-01-01T00:00:00.000Z''"]
  by (simp add: data_value_def cancelPayment_def spread_def)

text \<open>
  C10, as the code has it. \<^verbatim>\<open>refundPayment\<close> calls no gateway and always returns: the
  stored data with \<^verbatim>\<open>refunded_amount\<close> set to the requested amount, \<^verbatim>\<open>refunded_at\<close> set
  to the time of the call, and every other field as it was. The result is determined by
  the input together with that clock reading.
\<close>

theorem refundPayment_frame:
  "\<exists>d'. refundPayment now amount data = ([], Inr [(''data'', Obj d')])
       \<and> map_of d' =
           (map_of (spread data))(''refunded_amount'' \<mapsto> amount, ''refunded_at'' \<mapsto> Str now)"
  by (simp add: refundPayment_def update_conv')

text \<open>
  C10 as stated fails in one point: the result is not a function of the input alone. The
  same refund input at two different times gives two different results.
\<close>

theorem refundPayment_not_pure:
  "refundPayment ''2026-01-01T00:00:00.000Z'' (Num 100) (Some [(''id'', Str ''order_1'')])
   \<noteq> refundPayment ''2026-01-01T00:00:01.000Z'' (Num 100) (Some [(''id'', Str ''order_1'')])"
  by (simp add: refundPayment_def spread_def)

end
